theory Spec2Isabelle
  imports Main
begin

section \<open>Data model\<close>

text \<open>
  Python exceptions that can leave the two functions of \<^verbatim>\<open>export_ebay_reviews.py\<close>.
  \<open>SystemExit\<close> carries its message; \<open>ClientFailure\<close> stands for an exception of the
  client that is not a \<open>ConnectionError\<close>.
\<close>

datatype error = SystemExit string | AttributeError | TypeError | ValueError | ClientFailure

text \<open>
  A \<open>datetime\<close> as \<open>dateutil\<close> returns it, by its wall-clock fields, which are what
  \<open>strftime\<close> prints.
\<close>

record timestamp =
  year :: nat
  month :: nat
  day :: nat
  hour :: nat
  minute :: nat
  second :: nat
  microsecond :: nat

text \<open>
  The dict built at lines 118-126: every text field is a string or Python's \<open>None\<close>,
  \<open>item_id\<close> is always a string.
\<close>

record raw_row =
  comment_text :: "string option"
  comment_type :: "string option"
  comment_time :: "timestamp option"
  role :: "string option"
  item_id :: string
  item_title :: "string option"
  commenting_user :: "string option"

text \<open>One line of the returned frame: the ten columns of lines 194-203.\<close>

record export_row =
  title :: string
  body :: string
  rating :: int
  review_date :: string
  reviewer_name :: string
  reviewer_email :: string
  product_url :: string
  picture_urls :: string
  product_id :: string
  product_handle :: string

section \<open>Text helpers of the Python runtime\<close>

definition digit_char :: "nat \<Rightarrow> char" where
  "digit_char d = char_of (48 + d)"

text \<open>\<open>str(n)\<close> for a natural number: its decimal digits.\<close>

fun str_nat :: "nat \<Rightarrow> string" where
  "str_nat n = (if n < 10 then [digit_char n] else str_nat (n div 10) @ [digit_char (n mod 10)])"

declare str_nat.simps [simp del]

text \<open>Zero padding to a width, as the \<open>%d\<close>, \<open>%m\<close> and \<open>%Y\<close> directives do.\<close>

definition zero_pad :: "nat \<Rightarrow> string \<Rightarrow> string" where
  "zero_pad w s = replicate (w - length s) (CHR ''0'') @ s"

text \<open>\<open>strftime("%d/%m/%Y")\<close>.\<close>

definition strftime_dmy :: "timestamp \<Rightarrow> string" where
  "strftime_dmy t =
     zero_pad 2 (str_nat (day t)) @ ''/'' @ zero_pad 2 (str_nat (month t)) @ ''/'' @
     zero_pad 4 (str_nat (year t))"

text \<open>\<open>s.rstrip("/")\<close>: every trailing slash goes.\<close>

definition rstrip_slash :: "string \<Rightarrow> string" where
  "rstrip_slash s = rev (dropWhile (\<lambda>c. c = CHR ''/'') (rev s))"

section \<open>The review transformer\<close>

text \<open>Lines 13-17.\<close>

definition RATING_MAP :: "(string \<times> int) list" where
  "RATING_MAP = [(''Positive'', 5), (''Neutral'', 3), (''Negative'', 1)]"

text \<open>The boolean mask of lines 169-173, on one row.\<close>

definition seller_mask :: "raw_row \<Rightarrow> bool" where
  "seller_mask r \<longleftrightarrow> role r = Some ''Seller'' \<and> comment_text r \<noteq> None \<and> comment_type r \<noteq> None"

text \<open>\<open>Series.map(RATING_MAP)\<close> on one cell (line 179): a key outside the table gives \<open>NaN\<close>.\<close>

definition map_rating :: "string option \<Rightarrow> int option" where
  "map_rating c = (case c of None \<Rightarrow> None | Some k \<Rightarrow> map_of RATING_MAP k)"

text \<open>\<open>fillna("").astype(str)\<close> on one cell of a text column.\<close>

definition fillna_str :: "string option \<Rightarrow> string" where
  "fillna_str c = (case c of None \<Rightarrow> [] | Some s \<Rightarrow> s)"

text \<open>Boolean indexing \<open>df[mask]\<close>: the rows whose mask cell is true, in order.\<close>

definition select_rows :: "bool list \<Rightarrow> 'a list \<Rightarrow> 'a list" where
  "select_rows keep xs = map snd (filter fst (zip keep xs))"

text \<open>
  Lines 193-203: the output frame, column by column. Every column comes from the same
  frame, so the rows line up by position.
\<close>

definition judgeme_frame ::
  "raw_row list \<Rightarrow> int list \<Rightarrow> string option list \<Rightarrow> string list \<Rightarrow> export_row list" where
  "judgeme_frame df rating_col review_date_col product_url_col =
     map (\<lambda>(r, k, d, u).
            \<lparr>title = fillna_str (item_title r),
             body = fillna_str (comment_text r),
             rating = k,
             review_date = fillna_str d,
             reviewer_name = fillna_str (commenting_user r),
             reviewer_email = [],
             product_url = u,
             picture_urls = [],
             product_id = [],
             product_handle = []\<rparr>)
         (zip df (zip rating_col (zip review_date_col product_url_col)))"

text \<open>
  \<open>build_ebay_reviews_export\<close>, lines 141-205. A frame is the list of its rows; a
  \<open>raise SystemExit\<close> is \<open>Inl\<close>.

  \<open>to_datetime\<close> is what pandas makes of the \<open>comment_time\<close> column at lines 160 and
  166 (the frame is built, then \<open>pd.to_datetime(column, errors="coerce")\<close>), which pandas
  defines and no line of this program does: \<open>to_datetime col i\<close> is the cell at position
  \<open>i\<close> of the result for the whole column \<open>col\<close>, \<open>None\<close> for \<open>NaT\<close>. Which datetimes
  become \<open>NaT\<close> is up to the pandas at hand (the range of its timestamps, what the other
  cells of the column hold), so nothing is fixed about it here; the result has the index
  of the column.
\<close>

definition build_ebay_reviews_export ::
  "(timestamp option list \<Rightarrow> nat \<Rightarrow> timestamp option) \<Rightarrow> raw_row list \<Rightarrow> string \<Rightarrow>
     error + export_row list" where
  "build_ebay_reviews_export to_datetime rows ebay_base_url =
     (if rows = [] then
        Inl (SystemExit ''No feedback rows supplied to build_ebay_reviews_export'')
      else
        let col = map comment_time rows;
            df0 = map (\<lambda>(i, r). r\<lparr>comment_time := to_datetime col i\<rparr>) (enumerate 0 rows);
            df1 = select_rows (map seller_mask df0) df0
        in
          if df1 = [] then
            Inl (SystemExit ''No seller feedback with comments after filtering'')
          else
            let mapped = map (\<lambda>r. map_rating (comment_type r)) df1;
                notna = map (\<lambda>k. k \<noteq> None) mapped;
                df = select_rows notna df1;
                rating_col = List.map_filter (\<lambda>k. k) mapped;
                review_date_col = map (\<lambda>r. map_option strftime_dmy (comment_time r)) df;
                base = rstrip_slash ebay_base_url;
                product_url_col =
                  map (\<lambda>r. if item_id r \<noteq> [] then base @ ''/itm/'' @ item_id r else []) df
            in Inr (judgeme_frame df rating_col review_date_col product_url_col))"

text \<open>
  What lines 179-203 compute for one surviving row, read row by row; \<open>cell\<close> is the row's
  \<open>comment_time\<close> after line 166. The frame built by \<open>build_ebay_reviews_export\<close> is shown
  below to be the map of this function.
\<close>

definition export_of_row :: "string \<Rightarrow> timestamp option \<Rightarrow> raw_row \<Rightarrow> export_row" where
  "export_of_row b cell r =
     \<lparr>title = fillna_str (item_title r),
      body = fillna_str (comment_text r),
      rating = the (map_rating (comment_type r)),
      review_date = fillna_str (map_option strftime_dmy cell),
      reviewer_name = fillna_str (commenting_user r),
      reviewer_email = [],
      product_url = (if item_id r \<noteq> [] then rstrip_slash b @ ''/itm/'' @ item_id r else []),
      picture_urls = [],
      product_id = [],
      product_handle = []\<rparr>"

section \<open>The paginated fetcher\<close>

subsection \<open>The response of the Trading client\<close>

text \<open>
  \<open>response.dict()\<close> is the XML reply as nested dicts. A key of a dict is absent,
  present with \<open>None\<close> (an empty element), or present with a value.
\<close>

datatype 'a field = Absent | Null | Value 'a

text \<open>
  One \<open>FeedbackDetail\<close> object: a dict from element names to text or \<open>None\<close>. It is
  kept as the list of its items, since line 98 asks whether the dict is empty.
\<close>

type_synonym feedback_detail = "(string \<times> string option) list"

text \<open>
  The value under \<open>FeedbackDetail\<close>: one object, or a list of entries (an entry is an
  object, or \<open>None\<close> for an empty element).
\<close>

datatype details = Single feedback_detail | Many "feedback_detail option list"

record detail_array =
  FeedbackDetail :: "details field"

record pagination_result =
  TotalNumberOfPages :: "string field"

record response =
  FeedbackDetailArray :: "detail_array field"
  PaginationResult :: "pagination_result field"

text \<open>The request of lines 73-83.\<close>

record request =
  DetailLevel :: string
  FeedbackType :: string
  EntriesPerPage :: int
  PageNumber :: int

text \<open>
  One call of \<open>client.execute\<close>: it raises \<open>ConnectionError\<close>, raises something else,
  or returns. The loop asks for every page number once, so a client is a function of
  the request.
\<close>

datatype client_result = Raises_ConnectionError | Raises_Other | Returns response

subsection \<open>One page\<close>

text \<open>\<open>fb.get(key)\<close> on a feedback object.\<close>

definition dict_get :: "feedback_detail \<Rightarrow> string \<Rightarrow> string option" where
  "dict_get fb k = (case map_of fb k of None \<Rightarrow> None | Some v \<Rightarrow> v)"

text \<open>
  Lines 105-126 for one object. \<open>parse\<close> is \<open>date_parser.parse\<close>, with \<open>None\<close> for any
  exception it raises (lines 115-116); it is called on non-empty text only.
\<close>

definition make_row :: "(string \<Rightarrow> timestamp option) \<Rightarrow> feedback_detail \<Rightarrow> raw_row" where
  "make_row parse fb =
     (let comment_time_raw = dict_get fb ''CommentTime'' in
      \<lparr>comment_text = dict_get fb ''CommentText'',
       comment_type = dict_get fb ''CommentType'',
       comment_time =
         (case comment_time_raw of
            None \<Rightarrow> None
          | Some s \<Rightarrow> if s \<noteq> [] then parse s else None),
       role = dict_get fb ''Role'',
       item_id = (case dict_get fb ''ItemID'' of None \<Rightarrow> [] | Some s \<Rightarrow> s),
       item_title = dict_get fb ''ItemTitle'',
       commenting_user = dict_get fb ''CommentingUser''\<rparr>)"

text \<open>
  The \<open>for\<close> loop of lines 104-127: an entry that is \<open>None\<close> has no \<open>get\<close>, and the
  \<open>AttributeError\<close> leaves the function.
\<close>

fun rows_of :: "(string \<Rightarrow> timestamp option) \<Rightarrow> feedback_detail option list \<Rightarrow> error + raw_row list" where
  "rows_of parse [] = Inr []"
| "rows_of parse (None # fbs) = Inl AttributeError"
| "rows_of parse (Some fb # fbs) =
     (case rows_of parse fbs of Inl e \<Rightarrow> Inl e | Inr rs \<Rightarrow> Inr (make_row parse fb # rs))"

text \<open>
  Lines 96-127: the rows of one page. \<open>Inr None\<close> is the \<open>break\<close> of line 99 (the
  details are falsy: the key is absent, \<open>None\<close>, an empty dict or an empty list);
  \<open>FeedbackDetailArray\<close> present with \<open>None\<close> has no \<open>get\<close>.
\<close>

definition page_rows :: "(string \<Rightarrow> timestamp option) \<Rightarrow> response \<Rightarrow> error + raw_row list option" where
  "page_rows parse data =
     (case FeedbackDetailArray data of
        Null \<Rightarrow> Inl AttributeError
      | Absent \<Rightarrow> Inr None
      | Value arr \<Rightarrow>
          (case FeedbackDetail arr of
             Absent \<Rightarrow> Inr None
           | Null \<Rightarrow> Inr None
           | Value (Single fb) \<Rightarrow>
               if fb = [] then Inr None else map_sum id Some (rows_of parse [Some fb])
           | Value (Many fbs) \<Rightarrow>
               if fbs = [] then Inr None else map_sum id Some (rows_of parse fbs)))"

text \<open>
  Lines 129-130: \<open>int(pagination_result.get("TotalNumberOfPages", page))\<close>. A missing or
  \<open>None\<close> \<open>PaginationResult\<close> is the empty dict; \<open>int(None)\<close> is a \<open>TypeError\<close>.

  \<open>to_int\<close> is Python's \<open>int\<close> on a text, with \<open>None\<close> for its \<open>ValueError\<close>. Which texts
  it reads (whitespace, signs, underscores, digits of other scripts, a limit on the
  number of digits) is up to the interpreter at hand, so nothing is fixed about it here.
\<close>

definition read_total_pages :: "(string \<Rightarrow> int option) \<Rightarrow> int \<Rightarrow> response \<Rightarrow> error + int" where
  "read_total_pages to_int page data =
     (case PaginationResult data of
        Absent \<Rightarrow> Inr page
      | Null \<Rightarrow> Inr page
      | Value pr \<Rightarrow>
          (case TotalNumberOfPages pr of
             Absent \<Rightarrow> Inr page
           | Null \<Rightarrow> Inl TypeError
           | Value s \<Rightarrow> (case to_int s of None \<Rightarrow> Inl ValueError | Some n \<Rightarrow> Inr n)))"

subsection \<open>The loop\<close>

text \<open>
  \<open>fetch_all_feedback\<close>, lines 59-138. The \<open>while True\<close> loop is a recursion on the
  page number and the rows so far; \<open>None\<close> is a run that never returns, \<open>Some (Inl e)\<close>
  an exception that leaves the function, \<open>Some (Inr rows)\<close> the \<open>return\<close> of line 138.
  The \<open>print\<close> calls are left out. \<open>parse\<close> and \<open>to_int\<close> are the two library
  functions the loop calls.
\<close>

definition page_request :: "string \<Rightarrow> int \<Rightarrow> int \<Rightarrow> request" where
  "page_request feedback_type entries_per_page page =
     \<lparr>DetailLevel = ''ReturnAll'', FeedbackType = feedback_type,
      EntriesPerPage = entries_per_page, PageNumber = page\<rparr>"

partial_function (option) fetch_loop ::
  "(string \<Rightarrow> timestamp option) \<Rightarrow> (string \<Rightarrow> int option) \<Rightarrow> (request \<Rightarrow> client_result) \<Rightarrow>
     string \<Rightarrow> int \<Rightarrow> int \<Rightarrow> raw_row list \<Rightarrow> (error + raw_row list) option" where
  "fetch_loop parse to_int client feedback_type entries_per_page page all_rows =
     (case client (page_request feedback_type entries_per_page page) of
        Raises_ConnectionError \<Rightarrow> Some (Inr all_rows)
      | Raises_Other \<Rightarrow> Some (Inl ClientFailure)
      | Returns data \<Rightarrow>
          (case page_rows parse data of
             Inl e \<Rightarrow> Some (Inl e)
           | Inr None \<Rightarrow> Some (Inr all_rows)
           | Inr (Some rows) \<Rightarrow>
               (case read_total_pages to_int page data of
                  Inl e \<Rightarrow> Some (Inl e)
                | Inr total_pages \<Rightarrow>
                    if page \<ge> total_pages then Some (Inr (all_rows @ rows))
                    else fetch_loop parse to_int client feedback_type entries_per_page (page + 1)
                           (all_rows @ rows))))"

definition fetch_all_feedback ::
  "(string \<Rightarrow> timestamp option) \<Rightarrow> (string \<Rightarrow> int option) \<Rightarrow> (request \<Rightarrow> client_result) \<Rightarrow>
     string \<Rightarrow> int \<Rightarrow> (error + raw_row list) option" where
  "fetch_all_feedback parse to_int client feedback_type entries_per_page =
     fetch_loop parse to_int client feedback_type entries_per_page 1 []"

subsection \<open>Single object and one-element collection\<close>



section \<open>Sample data\<close>

text \<open>The one date \<open>dateutil\<close> is asked to read in the samples.\<close>

definition parse_table :: "string \<Rightarrow> timestamp option" where
  "parse_table s =
     (if s = ''2024-03-05T10:00:00Z''
      then Some \<lparr>year = 2024, month = 3, day = 5, hour = 10, minute = 0, second = 0,
        microsecond = 0\<rparr>
      else None)"

text \<open>
  \<open>int\<close> on the page counts of the samples, which are plain decimal numerals (ASCII
  digits and nothing else) or the word \<open>two\<close>: the value of the digits, read with no
  limit on their number, and \<open>None\<close> (the \<open>ValueError\<close>) for the word. Texts of any other
  form do not occur in the samples.
\<close>

definition is_digit :: "char \<Rightarrow> bool" where
  "is_digit c \<longleftrightarrow> 48 \<le> (of_char c :: nat) \<and> (of_char c :: nat) \<le> 57"

definition digit_val :: "char \<Rightarrow> nat" where
  "digit_val c = of_char c - 48"

fun digits_value :: "nat \<Rightarrow> string \<Rightarrow> nat option" where
  "digits_value acc [] = Some acc"
| "digits_value acc (c # cs) =
     (if is_digit c then digits_value (10 * acc + digit_val c) cs else None)"

definition decimal_int :: "string \<Rightarrow> int option" where
  "decimal_int s = (case s of [] \<Rightarrow> None | c # cs \<Rightarrow> map_option int (digits_value 0 (c # cs)))"

text \<open>
  \<open>pd.to_datetime\<close> on the columns of the samples, whose datetimes are all of one time
  zone and of the years 2023 and 2024: every cell is kept, \<open>None\<close> becomes \<open>NaT\<close>.
\<close>

definition keep_cells :: "timestamp option list \<Rightarrow> nat \<Rightarrow> timestamp option" where
  "keep_cells col i = (if i < length col then col ! i else None)"

definition fb_alice :: feedback_detail where
  "fb_alice =
     [(''CommentText'', Some ''Great!''), (''CommentType'', Some ''Positive''),
      (''CommentTime'', Some ''2024-03-05T10:00:00Z''), (''Role'', Some ''Seller''),
      (''ItemID'', Some ''123''), (''ItemTitle'', Some ''Widget''),
      (''CommentingUser'', Some ''alice'')]"

definition fb_bob :: feedback_detail where
  "fb_bob =
     [(''CommentText'', Some ''Slow post''), (''CommentType'', Some ''Neutral''),
      (''Role'', Some ''Seller''), (''ItemID'', Some ''456''), (''ItemTitle'', None),
      (''CommentingUser'', Some ''bob'')]"

definition alice_row :: raw_row where
  "alice_row =
     \<lparr>comment_text = Some ''Great!'', comment_type = Some ''Positive'',
      comment_time = Some \<lparr>year = 2024, month = 3, day = 5, hour = 10, minute = 0, second = 0,
        microsecond = 0\<rparr>,
      role = Some ''Seller'', item_id = ''123'', item_title = Some ''Widget'',
      commenting_user = Some ''alice''\<rparr>"

definition bob_row :: raw_row where
  "bob_row =
     \<lparr>comment_text = Some ''Slow post'', comment_type = Some ''Neutral'', comment_time = None,
      role = Some ''Seller'', item_id = ''456'', item_title = None,
      commenting_user = Some ''bob''\<rparr>"

definition carol_row :: raw_row where
  "carol_row =
     \<lparr>comment_text = Some ''Never arrived'', comment_type = Some ''Negative'',
      comment_time = Some \<lparr>year = 2023, month = 12, day = 31, hour = 23, minute = 59,
        second = 0, microsecond = 0\<rparr>,
      role = Some ''Seller'', item_id = [], item_title = Some ''Gadget'',
      commenting_user = None\<rparr>"

text \<open>\<open>Withdrawn\<close> is a comment type of the Trading API outside \<open>RATING_MAP\<close>.\<close>

definition withdrawn_row :: raw_row where
  "withdrawn_row =
     \<lparr>comment_text = Some ''Fine'', comment_type = Some ''Withdrawn'', comment_time = None,
      role = Some ''Seller'', item_id = ''789'', item_title = Some ''Gizmo'',
      commenting_user = Some ''dave''\<rparr>"

definition buyer_row :: raw_row where
  "buyer_row =
     \<lparr>comment_text = Some ''Quick payment'', comment_type = Some ''Positive'',
      comment_time = None, role = Some ''Buyer'', item_id = ''321'',
      item_title = Some ''Widget'', commenting_user = Some ''erin''\<rparr>"

definition sample_rows :: "raw_row list" where
  "sample_rows = [alice_row, withdrawn_row, bob_row, carol_row, buyer_row]"

definition sample_export :: "export_row list" where
  "sample_export =
     [\<lparr>title = ''Widget'', body = ''Great!'', rating = 5, review_date = ''05/03/2024'',
       reviewer_name = ''alice'', reviewer_email = [],
       product_url = ''https://www.ebay.co.uk/itm/123'', picture_urls = [], product_id = [],
       product_handle = []\<rparr>,
      \<lparr>title = [], body = ''Slow post'', rating = 3, review_date = [],
       reviewer_name = ''bob'', reviewer_email = [],
       product_url = ''https://www.ebay.co.uk/itm/456'', picture_urls = [], product_id = [],
       product_handle = []\<rparr>,
      \<lparr>title = ''Gadget'', body = ''Never arrived'', rating = 1, review_date = ''31/12/2023'',
       reviewer_name = [], reviewer_email = [], product_url = [], picture_urls = [],
       product_id = [], product_handle = []\<rparr>]"

definition page_of :: "details \<Rightarrow> string field \<Rightarrow> response" where
  "page_of d t =
     \<lparr>FeedbackDetailArray = Value \<lparr>FeedbackDetail = Value d\<rparr>,
      PaginationResult = Value \<lparr>TotalNumberOfPages = t\<rparr>\<rparr>"

text \<open>Two pages; the second is a single object with no page count.\<close>

definition two_page_client :: "request \<Rightarrow> client_result" where
  "two_page_client req =
     (if PageNumber req = 1 then Returns (page_of (Many [Some fb_alice, Some fb_bob]) (Value ''2''))
      else if PageNumber req = 2 then Returns (page_of (Single fb_bob) Absent)
      else Raises_Other)"

text \<open>Three pages announced; the connection drops on the third.\<close>

definition dropping_client :: "request \<Rightarrow> client_result" where
  "dropping_client req =
     (if PageNumber req = 1 then Returns (page_of (Many [Some fb_alice, Some fb_bob]) (Value ''3''))
      else if PageNumber req = 2 then Returns (page_of (Single fb_bob) (Value ''3''))
      else Raises_ConnectionError)"

text \<open>Three pages, each announcing three.\<close>

definition three_page_client :: "request \<Rightarrow> client_result" where
  "three_page_client req =
     (if PageNumber req = 1 then Returns (page_of (Many [Some fb_alice, Some fb_bob]) (Value ''3''))
      else if PageNumber req = 2 then Returns (page_of (Single fb_bob) (Value ''3''))
      else if PageNumber req = 3 then Returns (page_of (Single fb_alice) (Value ''3''))
      else Raises_Other)"



text \<open>Every page holds one entry and announces one page more than its own number.\<close>

definition growing_client :: "request \<Rightarrow> client_result" where
  "growing_client req =
     Returns (page_of (Single [(''CommentText'', Some ''ok'')])
       (Value (str_nat (nat (PageNumber req) + 1))))"


section \<open>Properties of the transformer\<close>

lemma select_rows_map_map: "select_rows (map p xs) (map f xs) = map f (filter p xs)"
  by (induction xs) (auto simp: select_rows_def)

lemma map_filter_id_map:
  "List.map_filter (\<lambda>k. k) (map f xs) = map (\<lambda>x. the (f x)) (filter (\<lambda>x. f x \<noteq> None) xs)"
  by (induction xs) (auto simp: List.map_filter_def)

lemma zip_columns:
  "zip (map a xs) (zip (map f xs) (zip (map g xs) (map h xs))) =
     map (\<lambda>x. (a x, f x, g x, h x)) xs"
  by (induction xs) auto

lemma seller_mask_coerced [simp]: "seller_mask (r\<lparr>comment_time := c\<rparr>) = seller_mask r"
  by (simp add: seller_mask_def)

lemma filter_enumerate_snd:
  "map snd (filter (\<lambda>x. P (snd x)) (enumerate n xs)) = filter P xs"
  by (induction xs arbitrary: n) auto

text \<open>The frame is built row by row: the two error exits, then one line per kept row.\<close>

lemma build_rowwise:
  "build_ebay_reviews_export to_datetime rows b =
     (if rows = [] then Inl (SystemExit ''No feedback rows supplied to build_ebay_reviews_export'')
      else if filter seller_mask rows = [] then
        Inl (SystemExit ''No seller feedback with comments after filtering'')
      else Inr (map (\<lambda>x. export_of_row b (to_datetime (map comment_time rows) (fst x)) (snd x))
             (filter (\<lambda>x. seller_mask (snd x) \<and> map_rating (comment_type (snd x)) \<noteq> None)
                (enumerate 0 rows))))"
proof (cases "rows = []")
  case True
  then show ?thesis by (simp add: build_ebay_reviews_export_def)
next
  case False
  let ?col = "map comment_time rows"
  let ?E = "enumerate 0 rows"
  let ?c = "\<lambda>x. (snd x)\<lparr>comment_time := to_datetime ?col (fst x)\<rparr>"
  let ?S = "filter (\<lambda>x. seller_mask (snd x)) ?E"
  let ?rated = "\<lambda>x. map_rating (comment_type (snd x)) \<noteq> None"
  let ?T = "filter ?rated ?S"
  have c: "(\<lambda>(i, r). r\<lparr>comment_time := to_datetime ?col i\<rparr>) = ?c"
    by (simp add: fun_eq_iff)
  have df1: "select_rows (map seller_mask (map ?c ?E)) (map ?c ?E) = map ?c ?S"
    by (simp add: select_rows_map_map comp_def)
  have "map snd ?S = filter seller_mask rows"
    by (rule filter_enumerate_snd)
  then have "(map snd ?S = []) = (filter seller_mask rows = [])" by simp
  then have S: "(?S = []) = (filter seller_mask rows = [])" by simp
  show ?thesis
  proof (cases "?S = []")
    case True
    with False df1 S show ?thesis
      unfolding build_ebay_reviews_export_def Let_def c by simp
  next
    case nonempty: False
    have mapped: "map (\<lambda>r. map_rating (comment_type r)) (map ?c ?S) =
        map (\<lambda>x. map_rating (comment_type (snd x))) ?S"
      by simp
    have notna: "map (\<lambda>k. k \<noteq> None) (map (\<lambda>x. map_rating (comment_type (snd x))) ?S) =
        map ?rated ?S"
      by simp
    have df: "select_rows (map ?rated ?S) (map ?c ?S) = map ?c ?T"
      by (rule select_rows_map_map)
    have rating_col:
      "List.map_filter (\<lambda>k. k) (map (\<lambda>x. map_rating (comment_type (snd x))) ?S) =
        map (\<lambda>x. the (map_rating (comment_type (snd x)))) ?T"
      by (rule map_filter_id_map)
    have T: "?T = filter (\<lambda>x. seller_mask (snd x) \<and> ?rated x) ?E"
      by (simp add: conj_commute)
    have "build_ebay_reviews_export to_datetime rows b =
        Inr (judgeme_frame (map ?c ?T) (map (\<lambda>x. the (map_rating (comment_type (snd x)))) ?T)
          (map (\<lambda>r. map_option strftime_dmy (comment_time r)) (map ?c ?T))
          (map (\<lambda>r. if item_id r \<noteq> [] then rstrip_slash b @ ''/itm/'' @ item_id r else [])
            (map ?c ?T)))"
      unfolding build_ebay_reviews_export_def Let_def c df1 mapped notna df rating_col
      using False nonempty by simp
    also have "\<dots> =
        Inr (map (\<lambda>x. export_of_row b (to_datetime ?col (fst x)) (snd x)) ?T)"
      unfolding judgeme_frame_def map_map
      by (simp add: zip_columns comp_def export_of_row_def)
    finally show ?thesis using False nonempty S unfolding T by simp
  qed
qed

lemma build_Inr:
  assumes "build_ebay_reviews_export to_datetime rows b = Inr out"
  shows "out = map (\<lambda>x. export_of_row b (to_datetime (map comment_time rows) (fst x)) (snd x))
     (filter (\<lambda>x. seller_mask (snd x) \<and> map_rating (comment_type (snd x)) \<noteq> None)
        (enumerate 0 rows))"
proof -
  from assms have "rows \<noteq> []" "filter seller_mask rows \<noteq> []"
    by (auto simp: build_rowwise split: if_splits)
  with assms show ?thesis by (simp add: build_rowwise)
qed

lemma map_rating_Some_iff:
  "map_rating c \<noteq> None \<longleftrightarrow>
     c = Some ''Positive'' \<or> c = Some ''Neutral'' \<or> c = Some ''Negative''"
proof (cases c)
  case None
  then show ?thesis by (simp add: map_rating_def)
next
  case (Some s)
  then show ?thesis by (simp add: map_rating_def RATING_MAP_def eq_commute [of _ s])
qed

lemma map_rating_values:
  "map_rating (Some ''Positive'') = Some 5" "map_rating (Some ''Neutral'') = Some 3"
  "map_rating (Some ''Negative'') = Some 1"
  by (simp_all add: map_rating_def RATING_MAP_def)

lemma list_all2_map_both:
  "(\<And>x. x \<in> set xs \<Longrightarrow> Q (g x) (f x)) \<Longrightarrow> list_all2 Q (map g xs) (map f xs)"
  by (simp add: list_all2_map1 list_all2_map2 list_all2_same)

lemma keep_eq:
  "(\<lambda>r::raw_row. role r = Some ''Seller'' \<and> comment_text r \<noteq> None \<and>
        (comment_type r = Some ''Positive'' \<or> comment_type r = Some ''Neutral'' \<or>
         comment_type r = Some ''Negative'')) =
   (\<lambda>r. seller_mask r \<and> map_rating (comment_type r) \<noteq> None)"
proof (rule ext)
  fix r :: raw_row
  have "comment_type r \<noteq> None"
    if "comment_type r = Some ''Positive'' \<or> comment_type r = Some ''Neutral'' \<or>
         comment_type r = Some ''Negative''"
    using that by (cases "comment_type r") simp_all
  then show "(role r = Some ''Seller'' \<and> comment_text r \<noteq> None \<and>
        (comment_type r = Some ''Positive'' \<or> comment_type r = Some ''Neutral'' \<or>
         comment_type r = Some ''Negative'')) =
   (seller_mask r \<and> map_rating (comment_type r) \<noteq> None)"
    unfolding seller_mask_def map_rating_Some_iff by blast
qed

subsection \<open>Evaluating the samples\<close>

lemma str_nat_small: "n < 10 \<Longrightarrow> str_nat n = [digit_char n]"
  by (subst str_nat.simps) simp

lemma str_nat_step: "\<not> n < 10 \<Longrightarrow> str_nat n = str_nat (n div 10) @ [digit_char (n mod 10)]"
  by (subst str_nat.simps) simp

lemma digit_char_eval:
  "digit_char 0 = CHR ''0''" "digit_char 1 = CHR ''1''" "digit_char 2 = CHR ''2''"
  "digit_char 3 = CHR ''3''" "digit_char 4 = CHR ''4''" "digit_char 5 = CHR ''5''"
  "digit_char 6 = CHR ''6''" "digit_char 7 = CHR ''7''" "digit_char 8 = CHR ''8''"
  "digit_char 9 = CHR ''9''" "digit_char (Suc 0) = CHR ''1''"
  by code_simp+

lemma strftime_samples:
  "strftime_dmy \<lparr>year = 2024, month = 3, day = 5, hour = 10, minute = 0, second = 0,
     microsecond = 0\<rparr> = ''05/03/2024''"
  "strftime_dmy \<lparr>year = 2023, month = 12, day = 31, hour = 23, minute = 59, second = 0,
     microsecond = 0\<rparr> = ''31/12/2023''"
  by (simp_all add: strftime_dmy_def zero_pad_def str_nat_small str_nat_step digit_char_eval)

lemma export_alice:
  "export_of_row ''https://www.ebay.co.uk'' (comment_time alice_row) alice_row =
     \<lparr>title = ''Widget'', body = ''Great!'', rating = 5, review_date = ''05/03/2024'',
      reviewer_name = ''alice'', reviewer_email = [],
      product_url = ''https://www.ebay.co.uk/itm/123'', picture_urls = [], product_id = [],
      product_handle = []\<rparr>"
  by (simp add: export_of_row_def alice_row_def fillna_str_def map_rating_values
      strftime_samples rstrip_slash_def)

lemma export_bob:
  "export_of_row ''https://www.ebay.co.uk'' (comment_time bob_row) bob_row =
     \<lparr>title = [], body = ''Slow post'', rating = 3, review_date = [],
       reviewer_name = ''bob'', reviewer_email = [],
       product_url = ''https://www.ebay.co.uk/itm/456'', picture_urls = [], product_id = [],
       product_handle = []\<rparr>"
  by (simp add: export_of_row_def bob_row_def fillna_str_def map_rating_values
      rstrip_slash_def)

lemma export_carol:
  "export_of_row ''https://www.ebay.co.uk'' (comment_time carol_row) carol_row =
     \<lparr>title = ''Gadget'', body = ''Never arrived'', rating = 1, review_date = ''31/12/2023'',
       reviewer_name = [], reviewer_email = [], product_url = [], picture_urls = [],
       product_id = [], product_handle = []\<rparr>"
  by (simp add: export_of_row_def carol_row_def fillna_str_def map_rating_values
      strftime_samples)

lemma sample_kept:
  "filter (\<lambda>x. seller_mask (snd x) \<and> map_rating (comment_type (snd x)) \<noteq> None)
     (enumerate 0 sample_rows) = [(0, alice_row), (2, bob_row), (3, carol_row)]"
  by (simp add: sample_rows_def seller_mask_def map_rating_def RATING_MAP_def alice_row_def
      bob_row_def carol_row_def withdrawn_row_def buyer_row_def)

lemma sample_cells:
  "keep_cells (map comment_time sample_rows) 0 = comment_time alice_row"
  "keep_cells (map comment_time sample_rows) 2 = comment_time bob_row"
  "keep_cells (map comment_time sample_rows) 3 = comment_time carol_row"
  by (simp_all add: keep_cells_def sample_rows_def)

lemma sample_sellers: "filter seller_mask sample_rows \<noteq> []"
  by (simp add: sample_rows_def seller_mask_def alice_row_def)

lemma build_sample:
  "build_ebay_reviews_export keep_cells sample_rows ''https://www.ebay.co.uk'' =
     Inr sample_export"
proof -
  have "sample_rows \<noteq> []" by (simp add: sample_rows_def)
  then have "build_ebay_reviews_export keep_cells sample_rows ''https://www.ebay.co.uk'' =
      Inr (map (\<lambda>x. export_of_row ''https://www.ebay.co.uk''
                 (keep_cells (map comment_time sample_rows) (fst x)) (snd x))
        (filter (\<lambda>x. seller_mask (snd x) \<and> map_rating (comment_type (snd x)) \<noteq> None)
           (enumerate 0 sample_rows)))"
    using sample_sellers by (simp only: build_rowwise if_False)
  then show ?thesis
    unfolding sample_kept
    by (simp add: sample_cells export_alice export_bob export_carol sample_export_def)
qed

section \<open>Claims on the transformer\<close>

text \<open>
  C1. The claim: when every row that passes the Seller/comment filter has a
  \<open>comment_type\<close> outside the rating table, \<open>build_ebay_reviews_export\<close> fails. The code
  checks for an empty frame after the first filter (lines 175-176) and not after the
  rating filter (lines 179-181): on one Seller row of type \<open>Withdrawn\<close> the row passes the
  first filter, has no rating, and the function returns the empty frame.
\<close>

theorem unrated_rows_give_empty_frame:
  "filter seller_mask [withdrawn_row] = [withdrawn_row] \<and>
   map_rating (comment_type withdrawn_row) = None \<and>
   build_ebay_reviews_export to_datetime [withdrawn_row] ''https://www.ebay.co.uk'' = Inr []"
  by (simp add: build_rowwise withdrawn_row_def seller_mask_def map_rating_def RATING_MAP_def)

text \<open>
  C3. The rows of the returned frame are, in input order, exactly the Seller rows with a
  comment whose \<open>comment_type\<close> is \<open>Positive\<close>, \<open>Neutral\<close> or \<open>Negative\<close>, and their
  ratings are 5, 3 and 1; a row with any other \<open>comment_type\<close> is not in the frame.
\<close>

theorem rating_mapping_exact:
  assumes "build_ebay_reviews_export to_datetime rows b = Inr out"
  shows "list_all2
     (\<lambda>r row. body row = the (comment_text r) \<and>
        (comment_type r = Some ''Positive'' \<and> rating row = 5 \<or>
         comment_type r = Some ''Neutral'' \<and> rating row = 3 \<or>
         comment_type r = Some ''Negative'' \<and> rating row = 1))
     (filter (\<lambda>r. role r = Some ''Seller'' \<and> comment_text r \<noteq> None \<and>
        (comment_type r = Some ''Positive'' \<or> comment_type r = Some ''Neutral'' \<or>
         comment_type r = Some ''Negative'')) rows)
     out"
proof -
  let ?keep = "\<lambda>r. seller_mask r \<and> map_rating (comment_type r) \<noteq> None"
  let ?K = "filter (\<lambda>x. ?keep (snd x)) (enumerate 0 rows)"
  let ?f = "\<lambda>x. export_of_row b (to_datetime (map comment_time rows) (fst x)) (snd x)"
  have src: "filter ?keep rows = map snd ?K"
    by (rule filter_enumerate_snd [symmetric])
  have out: "out = map ?f ?K" by (rule build_Inr [OF assms])
  show ?thesis
    unfolding keep_eq src out
  proof (rule list_all2_map_both)
    fix x :: "nat \<times> raw_row"
    assume "x \<in> set ?K"
    then have s: "seller_mask (snd x)" and nn: "map_rating (comment_type (snd x)) \<noteq> None"
      by simp_all
    from nn have m: "comment_type (snd x) = Some ''Positive'' \<or>
        comment_type (snd x) = Some ''Neutral'' \<or> comment_type (snd x) = Some ''Negative''"
      by (simp only: map_rating_Some_iff)
    from s obtain t where "comment_text (snd x) = Some t"
      by (auto simp: seller_mask_def)
    then have b: "body (?f x) = the (comment_text (snd x))"
      by (simp add: export_of_row_def fillna_str_def)
    have r: "rating (?f x) = the (map_rating (comment_type (snd x)))"
      by (simp add: export_of_row_def)
    from m have "comment_type (snd x) = Some ''Positive'' \<and> rating (?f x) = 5 \<or>
         comment_type (snd x) = Some ''Neutral'' \<and> rating (?f x) = 3 \<or>
         comment_type (snd x) = Some ''Negative'' \<and> rating (?f x) = 1"
      unfolding r by (elim disjE) (simp_all add: map_rating_values)
    with b show "body (?f x) = the (comment_text (snd x)) \<and>
        (comment_type (snd x) = Some ''Positive'' \<and> rating (?f x) = 5 \<or>
         comment_type (snd x) = Some ''Neutral'' \<and> rating (?f x) = 3 \<or>
         comment_type (snd x) = Some ''Negative'' \<and> rating (?f x) = 1)" by simp
  qed
qed

theorem rating_mapping_exact_witness:
  "build_ebay_reviews_export keep_cells sample_rows ''https://www.ebay.co.uk'' =
     Inr sample_export \<and>
   map rating sample_export = [5, 3, 1] \<and>
   list_all2
     (\<lambda>r row. body row = the (comment_text r) \<and>
        (comment_type r = Some ''Positive'' \<and> rating row = 5 \<or>
         comment_type r = Some ''Neutral'' \<and> rating row = 3 \<or>
         comment_type r = Some ''Negative'' \<and> rating row = 1))
     (filter (\<lambda>r. role r = Some ''Seller'' \<and> comment_text r \<noteq> None \<and>
        (comment_type r = Some ''Positive'' \<or> comment_type r = Some ''Neutral'' \<or>
         comment_type r = Some ''Negative'')) sample_rows)
     sample_export"
  using rating_mapping_exact [OF build_sample] build_sample
  by (simp add: sample_export_def)

text \<open>
  C4. On the empty list the function raises \<open>SystemExit\<close> with the message of line 163
  (the spec's EmptyInputError); on a non-empty list with no row that has role \<open>Seller\<close>,
  a comment text and a comment type, it raises \<open>SystemExit\<close> with the message of
  line 176 (the spec's NoMatchingRowsError).
\<close>

theorem empty_results_raise:
  "build_ebay_reviews_export to_datetime [] b =
     Inl (SystemExit ''No feedback rows supplied to build_ebay_reviews_export'') \<and>
   (rows \<noteq> [] \<and>
    (\<forall>r\<in>set rows. \<not> (role r = Some ''Seller'' \<and> comment_text r \<noteq> None \<and> comment_type r \<noteq> None))
    \<longrightarrow> build_ebay_reviews_export to_datetime rows b =
      Inl (SystemExit ''No seller feedback with comments after filtering''))"
proof -
  have "filter seller_mask rows = []"
    if "\<forall>r\<in>set rows. \<not> (role r = Some ''Seller'' \<and> comment_text r \<noteq> None \<and> comment_type r \<noteq> None)"
    using that by (simp add: filter_empty_conv seller_mask_def)
  then show ?thesis by (simp add: build_rowwise)
qed

theorem empty_results_raise_witness:
  "build_ebay_reviews_export keep_cells [] ''https://www.ebay.co.uk'' =
     Inl (SystemExit ''No feedback rows supplied to build_ebay_reviews_export'') \<and>
   role buyer_row = Some ''Buyer'' \<and>
   build_ebay_reviews_export keep_cells [buyer_row] ''https://www.ebay.co.uk'' =
     Inl (SystemExit ''No seller feedback with comments after filtering'')"
  using empty_results_raise [of keep_cells "''https://www.ebay.co.uk''" "[buyer_row]"]
  by (simp add: buyer_row_def)

text \<open>
  The worked example of the spec holds with every \<open>pd.to_datetime\<close> that keeps the date
  of the example.
\<close>

lemma worked_example_kept:
  assumes "to_datetime
     [Some \<lparr>year = 2024, month = 3, day = 5, hour = 10, minute = 0, second = 0,
        microsecond = 0\<rparr>] 0 =
     Some \<lparr>year = 2024, month = 3, day = 5, hour = 10, minute = 0, second = 0,
        microsecond = 0\<rparr>"
  shows "build_ebay_reviews_export to_datetime
     [\<lparr>comment_text = Some ''Great!'', comment_type = Some ''Positive'',
       comment_time = Some \<lparr>year = 2024, month = 3, day = 5, hour = 10, minute = 0, second = 0,
         microsecond = 0\<rparr>,
       role = Some ''Seller'', item_id = ''123'', item_title = Some ''Widget'',
       commenting_user = Some ''alice''\<rparr>]
     ''https://www.ebay.co.uk'' =
   Inr [\<lparr>title = ''Widget'', body = ''Great!'', rating = 5, review_date = ''05/03/2024'',
         reviewer_name = ''alice'', reviewer_email = [],
         product_url = ''https://www.ebay.co.uk/itm/123'', picture_urls = [], product_id = [],
         product_handle = []\<rparr>]"
proof -
  have k: "seller_mask alice_row" "map_rating (comment_type alice_row) \<noteq> None"
    by (simp_all add: alice_row_def seller_mask_def map_rating_values)
  have cell: "to_datetime [comment_time alice_row] 0 = comment_time alice_row"
    using assms by (simp add: alice_row_def)
  from k have "build_ebay_reviews_export to_datetime [alice_row] ''https://www.ebay.co.uk'' =
      Inr [export_of_row ''https://www.ebay.co.uk'' (to_datetime [comment_time alice_row] 0)
        alice_row]"
    by (simp add: build_rowwise)
  then show ?thesis
    unfolding cell export_alice by (simp add: alice_row_def)
qed

text \<open>
  C8. The worked example of the spec: one Seller row, \<open>Positive\<close>, dated 5 March 2024,
  item 123, gives exactly one line with rating 5, date \<open>05/03/2024\<close> and the item URL
  under the base URL, the four unused columns empty. The date of the example is one
  that \<open>pd.to_datetime\<close> keeps.
\<close>

theorem worked_example:
  "build_ebay_reviews_export keep_cells
     [\<lparr>comment_text = Some ''Great!'', comment_type = Some ''Positive'',
       comment_time = Some \<lparr>year = 2024, month = 3, day = 5, hour = 10, minute = 0, second = 0,
         microsecond = 0\<rparr>,
       role = Some ''Seller'', item_id = ''123'', item_title = Some ''Widget'',
       commenting_user = Some ''alice''\<rparr>]
     ''https://www.ebay.co.uk'' =
   Inr [\<lparr>title = ''Widget'', body = ''Great!'', rating = 5, review_date = ''05/03/2024'',
         reviewer_name = ''alice'', reviewer_email = [],
         product_url = ''https://www.ebay.co.uk/itm/123'', picture_urls = [], product_id = [],
         product_handle = []\<rparr>]"
  by (rule worked_example_kept) (simp add: keep_cells_def)

text \<open>
  C9. Whenever some row has role \<open>Seller\<close>, a comment text and a comment type, the
  function returns a frame (no exception). Each line of it has its ten columns: title,
  body and reviewer name are the row's text or the empty string where the row has
  \<open>None\<close>, the four unused columns are empty, the URL is empty for an empty item id, and
  the date is the empty string when \<open>pd.to_datetime\<close> gives \<open>NaT\<close> for the row's
  timestamp (it could not be interpreted), whatever the row held. With a
  \<open>pd.to_datetime\<close> that gives \<open>NaT\<close> for every cell that is \<open>None\<close>, the date is
  therefore the empty string when the row's timestamp is absent. Rows are given with
  their position in the input, which is the position of their cell in the column.
\<close>

theorem export_rows_complete:
  assumes "\<exists>r\<in>set rows. role r = Some ''Seller'' \<and> comment_text r \<noteq> None \<and> comment_type r \<noteq> None"
    and "\<forall>i<length rows. comment_time (rows ! i) = None \<longrightarrow>
      to_datetime (map comment_time rows) i = None"
  shows "\<exists>out. build_ebay_reviews_export to_datetime rows b = Inr out \<and>
     list_all2
       (\<lambda>(i, r) row.
          title row = (case item_title r of None \<Rightarrow> [] | Some s \<Rightarrow> s) \<and>
          body row = (case comment_text r of None \<Rightarrow> [] | Some s \<Rightarrow> s) \<and>
          reviewer_name row = (case commenting_user r of None \<Rightarrow> [] | Some s \<Rightarrow> s) \<and>
          reviewer_email row = [] \<and> picture_urls row = [] \<and> product_id row = [] \<and>
          product_handle row = [] \<and>
          (item_id r = [] \<longrightarrow> product_url row = []) \<and>
          (comment_time r = None \<or> to_datetime (map comment_time rows) i = None
             \<longrightarrow> review_date row = []))
       (filter (\<lambda>(i, r). role r = Some ''Seller'' \<and> comment_text r \<noteq> None \<and>
          (comment_type r = Some ''Positive'' \<or> comment_type r = Some ''Neutral'' \<or>
           comment_type r = Some ''Negative'')) (enumerate 0 rows))
       out"
proof -
  let ?col = "map comment_time rows"
  let ?keep = "\<lambda>r. seller_mask r \<and> map_rating (comment_type r) \<noteq> None"
  let ?K = "filter (\<lambda>x. ?keep (snd x)) (enumerate 0 rows)"
  let ?f = "\<lambda>x. export_of_row b (to_datetime ?col (fst x)) (snd x)"
  let ?Q = "\<lambda>(i, r) row.
          title row = (case item_title r of None \<Rightarrow> [] | Some s \<Rightarrow> s) \<and>
          body row = (case comment_text r of None \<Rightarrow> [] | Some s \<Rightarrow> s) \<and>
          reviewer_name row = (case commenting_user r of None \<Rightarrow> [] | Some s \<Rightarrow> s) \<and>
          reviewer_email row = [] \<and> picture_urls row = [] \<and> product_id row = [] \<and>
          product_handle row = [] \<and>
          (item_id r = [] \<longrightarrow> product_url row = []) \<and>
          (comment_time r = None \<or> to_datetime ?col i = None
             \<longrightarrow> review_date row = [])"
  from assms(1) have ne: "rows \<noteq> []" "filter seller_mask rows \<noteq> []"
    by (auto simp: filter_empty_conv seller_mask_def)
  then have out: "build_ebay_reviews_export to_datetime rows b = Inr (map ?f ?K)"
    by (simp add: build_rowwise)
  have src: "filter (\<lambda>(i, r). role r = Some ''Seller'' \<and> comment_text r \<noteq> None \<and>
          (comment_type r = Some ''Positive'' \<or> comment_type r = Some ''Neutral'' \<or>
           comment_type r = Some ''Negative'')) (enumerate 0 rows) = ?K"
    using fun_cong [OF keep_eq] by (intro filter_cong refl) (simp add: case_prod_beta)
  have rows: "list_all2 ?Q (map (\<lambda>x. x) ?K) (map ?f ?K)"
  proof (rule list_all2_map_both)
    fix x :: "nat \<times> raw_row"
    assume "x \<in> set ?K"
    then have "x \<in> set (enumerate 0 rows)" by simp
    then have i: "fst x < length rows" and r: "rows ! fst x = snd x"
      by (auto simp: in_set_enumerate_eq)
    have "review_date (?f x) = []"
      if "comment_time (snd x) = None \<or> to_datetime ?col (fst x) = None"
    proof -
      from that assms(2) i r have "to_datetime ?col (fst x) = None" by auto
      then show ?thesis by (simp add: export_of_row_def fillna_str_def)
    qed
    then show "?Q x (?f x)"
      by (simp add: case_prod_beta export_of_row_def fillna_str_def)
  qed
  show ?thesis
    unfolding src out using rows by auto
qed

theorem export_rows_complete_witness:
  "build_ebay_reviews_export keep_cells sample_rows ''https://www.ebay.co.uk'' =
     Inr sample_export \<and>
   comment_time bob_row = None \<and>
   map review_date sample_export = [''05/03/2024'', [], ''31/12/2023''] \<and>
   (\<exists>out. build_ebay_reviews_export keep_cells sample_rows ''https://www.ebay.co.uk'' =
       Inr out \<and>
     list_all2
       (\<lambda>(i, r) row.
          title row = (case item_title r of None \<Rightarrow> [] | Some s \<Rightarrow> s) \<and>
          body row = (case comment_text r of None \<Rightarrow> [] | Some s \<Rightarrow> s) \<and>
          reviewer_name row = (case commenting_user r of None \<Rightarrow> [] | Some s \<Rightarrow> s) \<and>
          reviewer_email row = [] \<and> picture_urls row = [] \<and> product_id row = [] \<and>
          product_handle row = [] \<and>
          (item_id r = [] \<longrightarrow> product_url row = []) \<and>
          (comment_time r = None \<or> keep_cells (map comment_time sample_rows) i = None
             \<longrightarrow> review_date row = []))
       (filter (\<lambda>(i, r). role r = Some ''Seller'' \<and> comment_text r \<noteq> None \<and>
          (comment_type r = Some ''Positive'' \<or> comment_type r = Some ''Neutral'' \<or>
           comment_type r = Some ''Negative'')) (enumerate 0 sample_rows))
       out)"
proof -
  have h: "\<exists>r\<in>set sample_rows.
      role r = Some ''Seller'' \<and> comment_text r \<noteq> None \<and> comment_type r \<noteq> None"
    by (simp add: sample_rows_def alice_row_def)
  have n: "\<forall>i<length sample_rows. comment_time (sample_rows ! i) = None \<longrightarrow>
      keep_cells (map comment_time sample_rows) i = None"
    by (simp add: keep_cells_def)
  have "comment_time bob_row = None" by (simp add: bob_row_def)
  moreover have "map review_date sample_export = [''05/03/2024'', [], ''31/12/2023'']"
    by (simp add: sample_export_def)
  ultimately show ?thesis
    using export_rows_complete [where to_datetime = keep_cells and rows = sample_rows
        and b = "''https://www.ebay.co.uk''", OF h n] build_sample
    by blast
qed

section \<open>Properties of the fetcher\<close>

subsection \<open>Reading back a printed number\<close>

lemma is_digit_digit_char: "d < 10 \<Longrightarrow> is_digit (digit_char d)"
  by (simp add: is_digit_def digit_char_def)

lemma digit_val_digit_char: "d < 10 \<Longrightarrow> digit_val (digit_char d) = d"
  by (simp add: digit_val_def digit_char_def)

lemma digits_value_append_digit:
  "digits_value acc cs = Some v \<Longrightarrow> is_digit d \<Longrightarrow>
   digits_value acc (cs @ [d]) = Some (10 * v + digit_val d)"
  by (induction acc cs rule: digits_value.induct) (auto split: if_splits)

lemma digits_value_str_nat: "digits_value 0 (str_nat n) = Some n"
proof (induction n rule: str_nat.induct)
  case (1 n)
  show ?case
  proof (cases "n < 10")
    case True
    then show ?thesis
      by (simp add: str_nat_small is_digit_digit_char digit_val_digit_char)
  next
    case False
    from 1 False have ih: "digits_value 0 (str_nat (n div 10)) = Some (n div 10)" by simp
    have "digits_value 0 (str_nat (n div 10) @ [digit_char (n mod 10)]) =
        Some (10 * (n div 10) + n mod 10)"
      using digits_value_append_digit [OF ih, of "digit_char (n mod 10)"]
      by (simp add: is_digit_digit_char digit_val_digit_char)
    with False show ?thesis by (simp add: str_nat_step)
  qed
qed

lemma str_nat_nonempty: "str_nat n \<noteq> []"
  by (cases "n < 10") (simp_all add: str_nat_small str_nat_step)

lemma decimal_int_str_nat: "decimal_int (str_nat n) = Some (int n)"
proof (cases "str_nat n")
  case Nil
  with str_nat_nonempty show ?thesis by blast
next
  case (Cons c cs)
  with digits_value_str_nat [of n] show ?thesis by (simp add: decimal_int_def)
qed

subsection \<open>Unfolding the loop\<close>

lemma fetch_loop_connection_error:
  "client (page_request ft epp page) = Raises_ConnectionError \<Longrightarrow>
   fetch_loop parse to_int client ft epp page acc = Some (Inr acc)"
  by (subst fetch_loop.simps) simp

lemma fetch_loop_page:
  "client (page_request ft epp page) = Returns data \<Longrightarrow>
   page_rows parse data = Inr (Some rows) \<Longrightarrow>
   read_total_pages to_int page data = Inr t \<Longrightarrow>
   fetch_loop parse to_int client ft epp page acc =
     (if page \<ge> t then Some (Inr (acc @ rows))
      else fetch_loop parse to_int client ft epp (page + 1) (acc @ rows))"
  by (subst fetch_loop.simps) simp

lemma fetch_loop_total_error:
  "client (page_request ft epp page) = Returns data \<Longrightarrow>
   page_rows parse data = Inr (Some rows) \<Longrightarrow>
   read_total_pages to_int page data = Inl e \<Longrightarrow>
   fetch_loop parse to_int client ft epp page acc = Some (Inl e)"
  by (subst fetch_loop.simps) simp

text \<open>Pages \<open>k\<close> to \<open>N - 1\<close> all yield rows and announce a further page.\<close>

lemma fetch_loop_run:
  assumes ok: "\<And>p. k \<le> p \<Longrightarrow> p < N \<Longrightarrow>
      \<exists>data t. client (page_request ft epp p) = Returns data \<and>
        page_rows parse data = Inr (Some (rs p)) \<and> read_total_pages to_int p data = Inr t \<and> p < t"
    and kN: "k \<le> N"
  shows "fetch_loop parse to_int client ft epp k acc =
     fetch_loop parse to_int client ft epp N (acc @ concat (map rs [k..N - 1]))"
  using ok kN
proof (induction "nat (N - k)" arbitrary: k acc)
  case 0
  then have "k = N" by simp
  then show ?case by simp
next
  case (Suc m)
  then have lt: "k < N" by simp
  from Suc.prems(1) [of k] lt obtain data t where
    d: "client (page_request ft epp k) = Returns data"
      "page_rows parse data = Inr (Some (rs k))" "read_total_pages to_int k data = Inr t" "k < t"
    by auto
  have step: "fetch_loop parse to_int client ft epp k acc =
      fetch_loop parse to_int client ft epp (k + 1) (acc @ rs k)"
    using d by (simp add: fetch_loop_page)
  have m: "m = nat (N - (k + 1))" using Suc.hyps(2) by simp
  have ih: "fetch_loop parse to_int client ft epp (k + 1) (acc @ rs k) =
      fetch_loop parse to_int client ft epp N ((acc @ rs k) @ concat (map rs [k + 1..N - 1]))"
    using Suc.hyps(1) [OF m, of "acc @ rs k"] Suc.prems(1) lt by simp
  have up: "[k..N - 1] = k # [k + 1..N - 1]"
    using lt by (simp add: upto_rec1)
  show ?case unfolding step ih up by simp
qed

lemma read_total_pages_cases:
  assumes "read_total_pages to_int page data = Inr t"
  shows "t = page \<or>
     (\<exists>pr s. PaginationResult data = Value pr \<and> TotalNumberOfPages pr = Value s \<and>
        to_int s = Some t)"
  using assms
  by (auto simp: read_total_pages_def split: field.splits option.splits)

text \<open>With announced page counts bounded, the loop returns from every page.\<close>

lemma fetch_loop_bounded:
  assumes b: "\<And>req data pr s t. client req = Returns data \<Longrightarrow>
      PaginationResult data = Value pr \<Longrightarrow> TotalNumberOfPages pr = Value s \<Longrightarrow>
      to_int s = Some t \<Longrightarrow> t \<le> B"
  shows "\<exists>res. fetch_loop parse to_int client ft epp page acc = Some res"
proof (induction "nat (B - page)" arbitrary: page acc rule: less_induct)
  case less
  show ?case
  proof (cases "client (page_request ft epp page)")
    case Raises_ConnectionError
    then show ?thesis by (subst fetch_loop.simps) simp
  next
    case Raises_Other
    then show ?thesis by (subst fetch_loop.simps) simp
  next
    case (Returns data)
    show ?thesis
    proof (cases "page_rows parse data")
      case (Inl e)
      with Returns show ?thesis by (subst fetch_loop.simps) simp
    next
      case (Inr ro)
      show ?thesis
      proof (cases ro)
        case None
        with Returns Inr show ?thesis by (subst fetch_loop.simps) simp
      next
        case (Some rows)
        show ?thesis
        proof (cases "read_total_pages to_int page data")
          case (Inl e)
          with Returns Inr Some show ?thesis by (simp add: fetch_loop_total_error)
        next
          case tot: (Inr t)
          show ?thesis
          proof (cases "t \<le> page")
            case True
            with Returns Inr Some tot show ?thesis by (simp add: fetch_loop_page)
          next
            case False
            with read_total_pages_cases [OF tot] obtain pr s where
              "PaginationResult data = Value pr" "TotalNumberOfPages pr = Value s"
              "to_int s = Some t" by auto
            from b [OF Returns this] have tB: "t \<le> B" .
            with False have "nat (B - (page + 1)) < nat (B - page)" by simp
            from less [OF this] obtain res where
              "fetch_loop parse to_int client ft epp (page + 1) (acc @ rows) = Some res" by blast
            with Returns Inr Some tot False show ?thesis by (simp add: fetch_loop_page)
          qed
        qed
      qed
    qed
  qed
qed

text \<open>The client of ever more pages keeps the loop running.\<close>

lemma page_rows_growing:
  "page_rows parse (page_of (Single [(''CommentText'', Some ''ok'')]) t) =
     Inr (Some [make_row parse [(''CommentText'', Some ''ok'')]])"
  by (simp add: page_rows_def page_of_def)

lemma read_total_growing:
  "0 \<le> page \<Longrightarrow>
   read_total_pages decimal_int page (page_of d (Value (str_nat (Suc (nat page))))) =
     Inr (page + 1)"
  by (simp add: read_total_pages_def page_of_def decimal_int_str_nat)

lemma growing_never:
  assumes run: "fetch_loop parse decimal_int growing_client ft epp page acc = Some y"
  shows "page < 0"
proof -
  have "decimal_int = decimal_int \<and> growing_client = growing_client \<longrightarrow> page < 0"
  proof (rule fetch_loop.raw_induct
      [where P = "\<lambda>parse to_int client ft epp page acc y.
          to_int = decimal_int \<and> client = growing_client \<longrightarrow> page < 0", OF _ run])
    fix loop parse to_int client ft epp page acc y
    assume ih: "\<And>parse to_int client ft epp page acc y.
        loop parse to_int client ft epp page acc = Some y \<Longrightarrow>
        to_int = decimal_int \<and> client = growing_client \<longrightarrow> page < (0::int)"
      and body: "(case client (page_request ft epp page) of
        Raises_ConnectionError \<Rightarrow> Some (Inr acc)
      | Raises_Other \<Rightarrow> Some (Inl ClientFailure)
      | Returns data \<Rightarrow>
          (case page_rows parse data of
             Inl e \<Rightarrow> Some (Inl e)
           | Inr None \<Rightarrow> Some (Inr acc)
           | Inr (Some rows) \<Rightarrow>
               (case read_total_pages to_int page data of
                  Inl e \<Rightarrow> Some (Inl e)
                | Inr total_pages \<Rightarrow>
                    if total_pages \<le> page then Some (Inr (acc @ rows))
                    else loop parse to_int client ft epp (page + 1) (acc @ rows)))) = Some y"
    show "to_int = decimal_int \<and> client = growing_client \<longrightarrow> page < 0"
    proof (intro impI, elim conjE, rule ccontr)
      assume eq: "to_int = decimal_int" "client = growing_client" and "\<not> page < 0"
      then have p: "0 \<le> page" by simp
      from body [unfolded eq] p have "loop parse decimal_int growing_client ft epp (page + 1)
          (acc @ [make_row parse [(''CommentText'', Some ''ok'')]]) = Some y"
        by (simp add: growing_client_def page_request_def page_rows_growing read_total_growing)
      from ih [OF this] p show False by simp
    qed
  qed
  then show ?thesis by simp
qed

subsection \<open>Clients that answer alike\<close>






subsection \<open>Evaluating the sample clients\<close>

lemma decimal_int_samples:
  "decimal_int ''2'' = Some 2" "decimal_int ''3'' = Some 3" "decimal_int ''two'' = None"
  by (simp_all add: decimal_int_def is_digit_def digit_val_def)

lemma make_row_samples:
  "make_row parse_table fb_alice = alice_row" "make_row parse_table fb_bob = bob_row"
  by (simp_all add: make_row_def dict_get_def fb_alice_def fb_bob_def alice_row_def bob_row_def
      parse_table_def)

lemma page_rows_samples:
  "page_rows parse_table (page_of (Many [Some fb_alice, Some fb_bob]) t) =
     Inr (Some [alice_row, bob_row])"
  "page_rows parse_table (page_of (Single fb_bob) t) = Inr (Some [bob_row])"
  "page_rows parse_table (page_of (Single fb_alice) t) = Inr (Some [alice_row])"
  by (simp_all add: page_rows_def page_of_def make_row_samples)
    (simp_all add: fb_bob_def fb_alice_def)

lemma read_total_samples:
  "read_total_pages decimal_int p (page_of d (Value ''2'')) = Inr 2"
  "read_total_pages decimal_int p (page_of d (Value ''3'')) = Inr 3"
  "read_total_pages decimal_int p (page_of d (Value ''two'')) = Inl ValueError"
  "read_total_pages to_int p (page_of d Absent) = Inr p"
  by (simp_all add: read_total_pages_def page_of_def decimal_int_samples)

section \<open>Claims on the fetcher\<close>

lemma read_total_pages_text:
  "PaginationResult data = Value pr \<Longrightarrow> TotalNumberOfPages pr = Value s \<Longrightarrow>
   read_total_pages to_int page data =
     (case to_int s of None \<Rightarrow> Inl ValueError | Some n \<Rightarrow> Inr n)"
  by (simp add: read_total_pages_def)

lemma announced_pages_run:
  assumes "\<forall>p. k \<le> p \<and> p < N \<longrightarrow>
      (\<exists>data pr s t. client (page_request ft epp p) = Returns data \<and>
        page_rows parse data = Inr (Some (rs p)) \<and> PaginationResult data = Value pr \<and>
        TotalNumberOfPages pr = Value s \<and> to_int s = Some t \<and> p < t)"
    and "k \<le> N"
  shows "fetch_loop parse to_int client ft epp k acc =
     fetch_loop parse to_int client ft epp N (acc @ concat (map rs [k..N - 1]))"
proof (rule fetch_loop_run [OF _ assms(2)])
  fix p :: int
  assume "k \<le> p" "p < N"
  with assms(1) obtain data pr s t where
    d: "client (page_request ft epp p) = Returns data"
      "page_rows parse data = Inr (Some (rs p))" "PaginationResult data = Value pr"
      "TotalNumberOfPages pr = Value s" "to_int s = Some t" "p < t"
    by blast
  from d(3-5) have "read_total_pages to_int p data = Inr t"
    by (simp add: read_total_pages_text)
  with d show "\<exists>data t. client (page_request ft epp p) = Returns data \<and>
        page_rows parse data = Inr (Some (rs p)) \<and> read_total_pages to_int p data = Inr t \<and>
        p < t"
    by blast
qed

text \<open>
  C2. Let pages 1 to \<open>N - 1\<close> each return rows (\<open>rs p\<close> for page \<open>p\<close>) and carry a
  \<open>TotalNumberOfPages\<close> that \<open>int\<close> reads as a number above the page's own, so that the
  loop asks for page \<open>N > 1\<close>, and let the client raise \<open>ConnectionError\<close> on page \<open>N\<close>.
  Then \<open>fetch_all_feedback\<close> raises nothing and returns the rows of pages 1 to \<open>N - 1\<close>,
  in page order.
\<close>

theorem transport_error_returns_partial:
  assumes "1 < N"
    and "\<forall>p. 1 \<le> p \<and> p < N \<longrightarrow>
      (\<exists>data pr s t. client (page_request ft epp p) = Returns data \<and>
        page_rows parse data = Inr (Some (rs p)) \<and> PaginationResult data = Value pr \<and>
        TotalNumberOfPages pr = Value s \<and> to_int s = Some t \<and> p < t)"
    and "client (page_request ft epp N) = Raises_ConnectionError"
  shows "fetch_all_feedback parse to_int client ft epp =
     Some (Inr (concat (map rs [1..N - 1])))"
proof -
  have "fetch_loop parse to_int client ft epp 1 [] =
      fetch_loop parse to_int client ft epp N ([] @ concat (map rs [1..N - 1]))"
    using assms(1,2) by (intro announced_pages_run) auto
  also have "\<dots> = Some (Inr ([] @ concat (map rs [1..N - 1])))"
    using assms(3) by (rule fetch_loop_connection_error)
  finally show ?thesis by (simp add: fetch_all_feedback_def)
qed

theorem transport_error_returns_partial_witness:
  "dropping_client (page_request ''FeedbackReceived'' 200 3) = Raises_ConnectionError \<and>
   fetch_all_feedback parse_table decimal_int dropping_client ''FeedbackReceived'' 200 =
     Some (Inr [alice_row, bob_row, bob_row])"
proof -
  let ?rs = "\<lambda>p::int. if p = 1 then [alice_row, bob_row] else [bob_row]"
  have drop: "dropping_client (page_request ''FeedbackReceived'' 200 3) = Raises_ConnectionError"
    by (simp add: dropping_client_def page_request_def)
  have pages: "\<forall>p. 1 \<le> p \<and> p < 3 \<longrightarrow>
      (\<exists>data pr s t. dropping_client (page_request ''FeedbackReceived'' 200 p) = Returns data \<and>
        page_rows parse_table data = Inr (Some (?rs p)) \<and> PaginationResult data = Value pr \<and>
        TotalNumberOfPages pr = Value s \<and> decimal_int s = Some t \<and> p < t)"
  proof (intro allI impI)
    fix p :: int
    assume "1 \<le> p \<and> p < 3"
    then have "p = 1 \<or> p = 2" by arith
    then show "\<exists>data pr s t.
        dropping_client (page_request ''FeedbackReceived'' 200 p) = Returns data \<and>
        page_rows parse_table data = Inr (Some (?rs p)) \<and> PaginationResult data = Value pr \<and>
        TotalNumberOfPages pr = Value s \<and> decimal_int s = Some t \<and> p < t"
    proof
      assume p: "p = 1"
      show ?thesis
        by (rule exI [of _ "page_of (Many [Some fb_alice, Some fb_bob]) (Value ''3'')"],
            rule exI [of _ "\<lparr>TotalNumberOfPages = Value ''3''\<rparr>"],
            rule exI [of _ "''3''"], rule exI [of _ 3])
          (simp add: p dropping_client_def page_request_def page_rows_samples
            decimal_int_samples, simp add: page_of_def)
    next
      assume p: "p = 2"
      show ?thesis
        by (rule exI [of _ "page_of (Single fb_bob) (Value ''3'')"],
            rule exI [of _ "\<lparr>TotalNumberOfPages = Value ''3''\<rparr>"],
            rule exI [of _ "''3''"], rule exI [of _ 3])
          (simp add: p dropping_client_def page_request_def page_rows_samples
            decimal_int_samples, simp add: page_of_def)
    qed
  qed
  have "[1..3 - 1] = [1, 2::int]" by (simp add: upto_rec1)
  with transport_error_returns_partial [where N = 3 and client = dropping_client
      and ft = "''FeedbackReceived''" and epp = 200 and parse = parse_table
      and to_int = decimal_int and rs = ?rs, OF _ pages drop] drop
  show ?thesis by simp
qed

text \<open>
  C5. The claim: the loop ends for every behaviour of the client. The code has no bound
  on the page number: with a client whose every page holds an entry and announces one
  page more than its own number, \<open>fetch_all_feedback\<close> never returns.
\<close>

theorem growing_client_never_returns:
  "fetch_all_feedback parse_table decimal_int growing_client ''FeedbackReceived'' 200 = None"
proof (cases "fetch_all_feedback parse_table decimal_int growing_client ''FeedbackReceived'' 200")
  case None
  then show ?thesis .
next
  case (Some y)
  then have False
    using growing_never [of parse_table "''FeedbackReceived''" 200 1 "[]" y]
    by (simp add: fetch_all_feedback_def)
  then show ?thesis ..
qed

text \<open>
  C5, amended. If the numbers that \<open>int\<close> reads from the \<open>TotalNumberOfPages\<close> texts of
  the client never exceed some bound \<open>B\<close>, the loop ends: \<open>fetch_all_feedback\<close> returns
  its rows or raises.
\<close>

theorem bounded_page_counts_terminate:
  assumes "\<forall>req data pr s t. client req = Returns data \<longrightarrow>
      PaginationResult data = Value pr \<longrightarrow> TotalNumberOfPages pr = Value s \<longrightarrow>
      to_int s = Some t \<longrightarrow> t \<le> B"
  shows "\<exists>res. fetch_all_feedback parse to_int client ft epp = Some res"
  unfolding fetch_all_feedback_def
  using assms by (intro fetch_loop_bounded [where B = B]) blast

theorem bounded_page_counts_terminate_witness:
  "fetch_all_feedback parse_table decimal_int two_page_client ''FeedbackReceived'' 200 =
     Some (Inr [alice_row, bob_row, bob_row]) \<and>
   (\<exists>res. fetch_all_feedback parse_table decimal_int two_page_client ''FeedbackReceived'' 200 =
      Some res)"
proof -
  have run: "fetch_all_feedback parse_table decimal_int two_page_client ''FeedbackReceived'' 200
      = Some (Inr [alice_row, bob_row, bob_row])"
    unfolding fetch_all_feedback_def
    by (subst fetch_loop.simps, simp add: two_page_client_def page_request_def
          page_rows_samples read_total_samples,
        subst fetch_loop.simps, simp add: two_page_client_def page_request_def
          page_rows_samples read_total_samples)
  have "\<exists>res. fetch_all_feedback parse_table decimal_int two_page_client ''FeedbackReceived''
      200 = Some res"
  proof (rule bounded_page_counts_terminate [where B = 2], intro allI impI)
    fix req data pr s t
    assume c: "two_page_client req = Returns data"
      and p: "PaginationResult data = Value pr" and s: "TotalNumberOfPages pr = Value s"
      and t: "decimal_int s = Some t"
    from c p s have "s = ''2''"
      by (auto simp: two_page_client_def page_of_def split: if_splits)
    with t show "t \<le> 2" by (simp add: decimal_int_samples)
  qed
  with run show ?thesis by simp
qed

text \<open>
  C6. For a page that returned rows: when \<open>int\<close> reads the number \<open>n\<close> from the page's
  \<open>TotalNumberOfPages\<close>, the loop returns the rows so far if the page number is at least
  \<open>n\<close>, and otherwise goes on with the next page number; when the metadata is absent
  (no \<open>PaginationResult\<close>, or none with a \<open>TotalNumberOfPages\<close>), the total is the page
  number itself and the loop returns.
\<close>

theorem pagination_stop_rule:
  assumes "client (page_request ft epp page) = Returns data"
    and "page_rows parse data = Inr (Some rows)"
  shows "(\<forall>pr s n. PaginationResult data = Value pr \<longrightarrow> TotalNumberOfPages pr = Value s \<longrightarrow>
        to_int s = Some n \<longrightarrow>
        fetch_loop parse to_int client ft epp page all_rows =
          (if page \<ge> n then Some (Inr (all_rows @ rows))
           else fetch_loop parse to_int client ft epp (page + 1) (all_rows @ rows))) \<and>
     (PaginationResult data = Absent \<or> PaginationResult data = Null \<or>
      (\<exists>pr. PaginationResult data = Value pr \<and> TotalNumberOfPages pr = Absent) \<longrightarrow>
        fetch_loop parse to_int client ft epp page all_rows = Some (Inr (all_rows @ rows)))"
proof (intro conjI allI impI)
  fix pr s n
  assume "PaginationResult data = Value pr" "TotalNumberOfPages pr = Value s"
    "to_int s = Some n"
  then have "read_total_pages to_int page data = Inr n"
    by (simp add: read_total_pages_text)
  with assms show "fetch_loop parse to_int client ft epp page all_rows =
          (if page \<ge> n then Some (Inr (all_rows @ rows))
           else fetch_loop parse to_int client ft epp (page + 1) (all_rows @ rows))"
    by (rule fetch_loop_page)
next
  assume "PaginationResult data = Absent \<or> PaginationResult data = Null \<or>
      (\<exists>pr. PaginationResult data = Value pr \<and> TotalNumberOfPages pr = Absent)"
  then have "read_total_pages to_int page data = Inr page"
    by (auto simp: read_total_pages_def)
  with assms show "fetch_loop parse to_int client ft epp page all_rows =
      Some (Inr (all_rows @ rows))"
    by (simp add: fetch_loop_page)
qed

theorem pagination_stop_rule_witness:
  "fetch_loop parse_table decimal_int three_page_client ''FeedbackReceived'' 200 1 [] =
     fetch_loop parse_table decimal_int three_page_client ''FeedbackReceived'' 200 2
       [alice_row, bob_row] \<and>
   fetch_loop parse_table decimal_int three_page_client ''FeedbackReceived'' 200 2
       [alice_row, bob_row] =
     fetch_loop parse_table decimal_int three_page_client ''FeedbackReceived'' 200 3
       [alice_row, bob_row, bob_row] \<and>
   fetch_loop parse_table decimal_int three_page_client ''FeedbackReceived'' 200 3
       [alice_row, bob_row, bob_row] =
     Some (Inr [alice_row, bob_row, bob_row, alice_row]) \<and>
   fetch_loop parse_table decimal_int two_page_client ''FeedbackReceived'' 200 2
       [alice_row, bob_row] =
     Some (Inr [alice_row, bob_row, bob_row])"
proof -
  have pr: "PaginationResult (page_of d (Value ''3'')) = Value \<lparr>TotalNumberOfPages = Value ''3''\<rparr>"
    for d
    by (simp add: page_of_def)
  have tn: "TotalNumberOfPages \<lparr>TotalNumberOfPages = Value ''3''\<rparr> = Value ''3''"
    by simp
  have c1: "three_page_client (page_request ''FeedbackReceived'' 200 1) =
      Returns (page_of (Many [Some fb_alice, Some fb_bob]) (Value ''3''))"
    by (simp add: three_page_client_def page_request_def)
  have c2: "three_page_client (page_request ''FeedbackReceived'' 200 2) =
      Returns (page_of (Single fb_bob) (Value ''3''))"
    by (simp add: three_page_client_def page_request_def)
  have c3: "three_page_client (page_request ''FeedbackReceived'' 200 3) =
      Returns (page_of (Single fb_alice) (Value ''3''))"
    by (simp add: three_page_client_def page_request_def)
  have d2: "two_page_client (page_request ''FeedbackReceived'' 200 2) =
      Returns (page_of (Single fb_bob) Absent)"
    by (simp add: two_page_client_def page_request_def)
  have r1: "page_rows parse_table (page_of (Many [Some fb_alice, Some fb_bob]) (Value ''3'')) =
      Inr (Some [alice_row, bob_row])"
    by (rule page_rows_samples)
  have r2: "page_rows parse_table (page_of (Single fb_bob) (Value ''3'')) = Inr (Some [bob_row])"
    by (rule page_rows_samples)
  have r3: "page_rows parse_table (page_of (Single fb_alice) (Value ''3'')) =
      Inr (Some [alice_row])"
    by (rule page_rows_samples)
  have r4: "page_rows parse_table (page_of (Single fb_bob) Absent) = Inr (Some [bob_row])"
    by (rule page_rows_samples)
  have a: "\<exists>pr. PaginationResult (page_of (Single fb_bob) Absent) = Value pr \<and>
      TotalNumberOfPages pr = Absent"
    by (simp add: page_of_def)
  note s1 = pagination_stop_rule [where client = three_page_client and page = 1
      and to_int = decimal_int and all_rows = "[]", OF c1 r1, THEN conjunct1, rule_format,
      OF pr tn decimal_int_samples(2)]
  note s2 = pagination_stop_rule [where client = three_page_client and page = 2
      and to_int = decimal_int and all_rows = "[alice_row, bob_row]", OF c2 r2,
      THEN conjunct1, rule_format, OF pr tn decimal_int_samples(2)]
  note s3 = pagination_stop_rule [where client = three_page_client and page = 3
      and to_int = decimal_int and all_rows = "[alice_row, bob_row, bob_row]", OF c3 r3,
      THEN conjunct1, rule_format, OF pr tn decimal_int_samples(2)]
  note s4 = pagination_stop_rule [where client = two_page_client and page = 2
      and to_int = decimal_int and all_rows = "[alice_row, bob_row]", OF d2 r4,
      THEN conjunct2]
  from s1 s2 s3 s4 a show ?thesis by simp
qed







end
